theory Spec2Isabelle
  imports
    Complex_Main
    "HOL-Library.Char_ord"
    "HOL-Library.List_Lexorder"
    "HOL-Library.Product_Lexorder"
begin

section \<open>Data model of \<open>analysis_tools.py\<close>\<close>

text \<open>
  A pandas \<open>DataFrame\<close> is modelled by its column labels and its rows. A cell is
  \<open>None\<close> where pandas holds a missing value (\<open>NaN\<close>/\<open>None\<close>) and \<open>Some v\<close>
  otherwise. Column labels are Python strings; a \<open>string\<close> here is a list of code points
  below 256.
\<close>

record 'v dataframe =
  columns :: "string list"
  rows :: "'v option list list"

text \<open>The class \<open>AnalysisTools\<close>: the fields set by \<open>__init__\<close>.\<close>

record 'v analysis_tools =
  df :: "'v dataframe"
  total_respondents :: int
  question_col :: string
  subquest_col :: string
  respondent_col :: string
  answer_col :: string

text \<open>
  \<open>__init__\<close>: the frame is copied, the five other arguments are stored as they are.
  The four column names default to \<open>question\<close>, \<open>subquestion\<close>, \<open>respondent_id\<close> and
  \<open>answer\<close>.
\<close>

definition init :: "'v dataframe \<Rightarrow> int \<Rightarrow> string \<Rightarrow> string \<Rightarrow> string \<Rightarrow> string \<Rightarrow> 'v analysis_tools" where
  "init dataframe n q s r a =
     \<lparr>df = dataframe, total_respondents = n, question_col = q, subquest_col = s,
      respondent_col = r, answer_col = a\<rparr>"

definition init_default :: "'v dataframe \<Rightarrow> int \<Rightarrow> 'v analysis_tools" where
  "init_default dataframe n =
     init dataframe n ''question'' ''subquestion'' ''respondent_id'' ''answer''"

section \<open>Python string methods used by \<open>sanitize_columns\<close>\<close>

text \<open>
  \<open>str.strip()\<close> without argument removes leading and trailing whitespace. Among the
  code points below 256 Python's whitespace is 9 to 13, 28 to 32, 133 and 160.
\<close>

definition isspace :: "char \<Rightarrow> bool" where
  "isspace c = (let n = (of_char c :: nat) in
     (9 \<le> n \<and> n \<le> 13) \<or> (28 \<le> n \<and> n \<le> 32) \<or> n = 133 \<or> n = 160)"

definition strip :: "string \<Rightarrow> string" where
  "strip s = rev (dropWhile isspace (rev (dropWhile isspace s)))"

text \<open>
  \<open>str.replace(old, new)\<close>: every non-overlapping occurrence of \<open>old\<close>, found from
  left to right, is replaced by \<open>new\<close>; the scan resumes after the replaced
  occurrence. With an empty \<open>old\<close> Python puts \<open>new\<close> before every character and at
  the end.
\<close>

fun replace_from :: "string \<Rightarrow> string \<Rightarrow> string \<Rightarrow> nat \<Rightarrow> string" where
  "replace_from old new [] skip = []"
| "replace_from old new (c # cs) (Suc k) = replace_from old new cs k"
| "replace_from old new (c # cs) 0 =
     (if take (length old) (c # cs) = old
      then new @ replace_from old new cs (length old - 1)
      else c # replace_from old new cs 0)"

definition replace :: "string \<Rightarrow> string \<Rightarrow> string \<Rightarrow> string" where
  "replace old new s =
     (if old = [] then new @ concat (map (\<lambda>c. c # new) s) else replace_from old new s 0)"

text \<open>
  \<open>str.lower()\<close> on code points below 256: the letters \<open>A\<close> to \<open>Z\<close> and the
  upper-case letters 192 to 222 (without the multiplication sign 215) move up by 32.
\<close>

definition lower_char :: "char \<Rightarrow> char" where
  "lower_char c = (let n = (of_char c :: nat) in
     if (65 \<le> n \<and> n \<le> 90) \<or> (192 \<le> n \<and> n \<le> 222 \<and> n \<noteq> 215) then char_of (n + 32) else c)"

definition lower :: "string \<Rightarrow> string" where
  "lower s = map lower_char s"

section \<open>\<open>sanitize_columns\<close>\<close>

text \<open>The body of the loop: the new name computed for one column label.\<close>

definition sanitize_name :: "string \<Rightarrow> string" where
  "sanitize_name col =
     (let name = strip col;
          name = replace '')'' '''' (replace ''('' '''' (replace ''-'' ''_''
                   (replace ''.'' ''_'' (replace '' '' ''_'' name))));
          name = replace ''__'' ''_'' name
      in lower name)"

text \<open>
  The loop fills the dictionary \<open>new_cols\<close> with \<open>col \<mapsto> sanitize_name col\<close> for every
  label, in the order of the labels; a label that occurs twice is stored twice with the
  same value.
\<close>

definition new_cols :: "string list \<Rightarrow> (string \<rightharpoonup> string)" where
  "new_cols cols = fold (\<lambda>col m. m(col \<mapsto> sanitize_name col)) cols Map.empty"

text \<open>\<open>DataFrame.rename(columns=m)\<close>: a label in the dictionary is replaced, any other is kept.\<close>

definition rename :: "(string \<rightharpoonup> string) \<Rightarrow> 'v dataframe \<Rightarrow> 'v dataframe" where
  "rename m t = t\<lparr>columns := map (\<lambda>c. case m c of Some n \<Rightarrow> n | None \<Rightarrow> c) (columns t)\<rparr>"

text \<open>\<open>sanitize_columns\<close> stores the renamed frame and returns it: the result and the new state.\<close>

definition sanitize_columns :: "'v analysis_tools \<Rightarrow> 'v dataframe \<times> 'v analysis_tools" where
  "sanitize_columns self =
     (let d = rename (new_cols (columns (df self))) (df self)
      in (d, self\<lparr>df := d\<rparr>))"

section \<open>The pandas operations the analysis methods call\<close>

text \<open>
  The model follows pandas for calls in which the question, group, answer and respondent
  labels name different columns; a label that takes two of these roles is treated by
  pandas in ways the model does not follow. The properties of the three frequency
  methods are stated for calls that return a table.

  Exceptions are values. Selecting a column by a label that the frame does not have raises
  \<open>KeyError\<close>. A label that occurs more than once selects a sub-frame instead of a
  column, and the grouping and assignment steps of the methods below reject it; that is
  the \<open>ValueError\<close> here.
\<close>

datatype error = KeyError string | ValueError string

definition col_index :: "'v dataframe \<Rightarrow> string \<Rightarrow> error + nat" where
  "col_index t c =
     (case filter (\<lambda>i. columns t ! i = c) [0..<length (columns t)] of
        [] \<Rightarrow> Inl (KeyError c)
      | [i] \<Rightarrow> Inr i
      | _ \<Rightarrow> Inl (ValueError c))"

fun col_indices :: "'v dataframe \<Rightarrow> string list \<Rightarrow> error + nat list" where
  "col_indices t [] = Inr []"
| "col_indices t (c # cs) =
     (case col_index t c of
        Inl e \<Rightarrow> Inl e
      | Inr i \<Rightarrow> (case col_indices t cs of Inl e \<Rightarrow> Inl e | Inr js \<Rightarrow> Inr (i # js)))"

text \<open>The cell of a row in a column; a row too short for the column holds no value there.\<close>

definition cell :: "'v option list \<Rightarrow> nat \<Rightarrow> 'v option" where
  "cell r i = (if i < length r then r ! i else None)"

text \<open>\<open>Series.isin(values)\<close> on one cell; \<open>q_list\<close> is a list of values, so a missing cell is not in it.\<close>

definition isin :: "'v list \<Rightarrow> 'v option \<Rightarrow> bool" where
  "isin q_list c = (case c of None \<Rightarrow> False | Some v \<Rightarrow> v \<in> set q_list)"

text \<open>\<open>self.df[self.df[self.question_col].isin(q_list)]\<close>: the rows kept by the filter.\<close>

definition filter_questions :: "'v analysis_tools \<Rightarrow> 'v list \<Rightarrow> error + 'v option list list" where
  "filter_questions self q_list =
     (case col_index (df self) (question_col self) of
        Inl e \<Rightarrow> Inl e
      | Inr qi \<Rightarrow> Inr (filter (\<lambda>r. isin q_list (cell r qi)) (rows (df self))))"

text \<open>
  \<open>groupby\<close> with its defaults \<open>sort=True\<close> and \<open>dropna=True\<close>: a row with a missing
  value in a key column belongs to no group, and the groups come in ascending order of
  their keys. \<open>key\<close> reads the key of a row, \<open>None\<close> when one of its parts is missing.
\<close>

definition groupby :: "('v option list \<Rightarrow> 'k option) \<Rightarrow> 'v option list list \<Rightarrow> ('k::linorder \<times> 'v option list list) list" where
  "groupby key rs =
     map (\<lambda>k. (k, filter (\<lambda>r. key r = Some k) rs)) (sort (remdups (List.map_filter key rs)))"

text \<open>The key of a row for a list of key columns, and for the three key columns of the nominal methods.\<close>

definition list_key :: "nat list \<Rightarrow> 'v option list \<Rightarrow> 'v list option" where
  "list_key kis r = those (map (cell r) kis)"

definition triple_key :: "nat \<Rightarrow> nat \<Rightarrow> nat \<Rightarrow> 'v option list \<Rightarrow> ('v \<times> 'v \<times> 'v) option" where
  "triple_key qi gi ai r =
     (case (cell r qi, cell r gi, cell r ai) of
        (Some q, Some g, Some a) \<Rightarrow> Some (q, g, a)
      | _ \<Rightarrow> None)"

text \<open>
  The three aggregations: \<open>size()\<close> counts the rows of a group, \<open>nunique()\<close> the distinct
  values of a column that are not missing, \<open>count\<close> the values that are not missing.
\<close>

definition size_agg :: "'v option list list \<Rightarrow> int" where
  "size_agg g = int (length g)"

definition nunique :: "'v option list \<Rightarrow> int" where
  "nunique cs = int (length (remdups (List.map_filter (\<lambda>c. c) cs)))"


text \<open>
  A \<open>float64\<close> value: a finite value, an infinity or \<open>NaN\<close>. A finite value is held as
  the exact rational; the rounding error of the binary representation is left out.
  Dividing an integer column by an integer gives an infinity or \<open>NaN\<close> on a zero divisor,
  no exception.
\<close>

datatype fval = Fin rat | PosInf | NegInf | NaN

definition fdiv :: "int \<Rightarrow> int \<Rightarrow> fval" where
  "fdiv a b =
     (if b = 0 then (if a = 0 then NaN else if 0 < a then PosInf else NegInf)
      else Fin (of_int a / of_int b))"

definition times100 :: "fval \<Rightarrow> fval" where
  "times100 x = (case x of Fin r \<Rightarrow> Fin (r * 100) | PosInf \<Rightarrow> PosInf | NegInf \<Rightarrow> NegInf | NaN \<Rightarrow> NaN)"

text \<open>Rounding to the nearest integer, a tie to the even neighbour.\<close>

definition rint :: "rat \<Rightarrow> int" where
  "rint r =
     (let f = \<lfloor>r\<rfloor>; d = r - of_int f
      in if d < 1 / 2 then f else if 1 / 2 < d then f + 1 else if even f then f else f + 1)"

text \<open>\<open>.round(2)\<close>: scale by 100, round to the nearest integer, scale back.\<close>

definition round2 :: "fval \<Rightarrow> fval" where
  "round2 x = (case x of Fin r \<Rightarrow> Fin (of_int (rint (r * 100)) / 100) | PosInf \<Rightarrow> PosInf | NegInf \<Rightarrow> NegInf | NaN \<Rightarrow> NaN)"

section \<open>\<open>multi_response_analysis\<close>\<close>

text \<open>A row of the result: the index (the grouping key) and the columns \<open>Response Count\<close> and \<open>Percentage (%)\<close>.\<close>

record 'v mr_row =
  mr_index :: "'v list"
  Response_Count :: int
  mr_Percentage :: fval

definition multi_response_analysis :: "'v::linorder analysis_tools \<Rightarrow> 'v list \<Rightarrow> string list \<Rightarrow> error + 'v mr_row list" where
  "multi_response_analysis self q_list group_cols =
     (case filter_questions self q_list of
        Inl e \<Rightarrow> Inl e
      | Inr df_mr \<Rightarrow>
          let grouping_keys = group_cols @ [question_col self, subquest_col self] in
          (case col_indices (df self) grouping_keys of
             Inl e \<Rightarrow> Inl e
           | Inr kis \<Rightarrow>
               (case col_index (df self) (respondent_col self) of
                  Inl e \<Rightarrow> Inl e
                | Inr ri \<Rightarrow>
                    let mr_frequencies =
                          map (\<lambda>(k, g). (k, nunique (map (\<lambda>r. cell r ri) g))) (groupby (list_key kis) df_mr);
                        mr_percentages =
                          map (\<lambda>(k, n). \<lparr>mr_index = k, Response_Count = n,
                                 mr_Percentage = round2 (times100 (fdiv n (total_respondents self)))\<rparr>)
                            mr_frequencies
                    in Inr (sort_key mr_index mr_percentages))))"

section \<open>\<open>nominal_frequency_analysis\<close> and \<open>nominal_frequency_pivot\<close>\<close>

text \<open>A row of the result of both: the index \<open>(question, group, answer)\<close> and the columns \<open>Count\<close> and \<open>Percentage (%)\<close>.\<close>

record 'v freq_row =
  index :: "'v \<times> 'v \<times> 'v"
  Count :: int
  Percentage :: fval

text \<open>The three key columns, looked up in the order of the grouping.\<close>

definition key_columns :: "'v analysis_tools \<Rightarrow> string \<Rightarrow> error + (nat \<times> nat \<times> nat)" where
  "key_columns self group_col =
     (case col_index (df self) (question_col self) of
        Inl e \<Rightarrow> Inl e
      | Inr qi \<Rightarrow>
          (case col_index (df self) group_col of
             Inl e \<Rightarrow> Inl e
           | Inr gi \<Rightarrow>
               (case col_index (df self) (answer_col self) of
                  Inl e \<Rightarrow> Inl e
                | Inr ai \<Rightarrow> Inr (qi, gi, ai))))"

text \<open>\<open>groupby(level=0)['Count'].transform('sum')\<close>: for each row the sum of \<open>Count\<close> over the rows with the same question.\<close>

definition question_total :: "(('v \<times> 'v \<times> 'v) \<times> int) list \<Rightarrow> (('v \<times> 'v \<times> 'v) \<times> int) \<Rightarrow> int" where
  "question_total counts row = sum_list (map snd (filter (\<lambda>row'. fst (fst row') = fst (fst row)) counts))"

text \<open>The two passes shared by both methods, from the \<open>Count\<close> column on; \<open>Question_Total\<close> is dropped at the end.\<close>

definition with_percentage :: "(('v \<times> 'v \<times> 'v) \<times> int) list \<Rightarrow> 'v freq_row list" where
  "with_percentage counts =
     map (\<lambda>row. \<lparr>index = fst row, Count = snd row,
                 Percentage = round2 (times100 (fdiv (snd row) (question_total counts row)))\<rparr>) counts"

text \<open>The first pass of \<open>nominal_frequency_analysis\<close>: \<open>raw_counts\<close>, the rows of each group counted.\<close>

definition raw_counts :: "'v::linorder analysis_tools \<Rightarrow> 'v list \<Rightarrow> string \<Rightarrow> error + (('v \<times> 'v \<times> 'v) \<times> int) list" where
  "raw_counts self q_list group_col =
     (case filter_questions self q_list of
        Inl e \<Rightarrow> Inl e
      | Inr df_filtered \<Rightarrow>
          (case key_columns self group_col of
             Inl e \<Rightarrow> Inl e
           | Inr (qi, gi, ai) \<Rightarrow>
               Inr (map (\<lambda>(k, g). (k, size_agg g)) (groupby (triple_key qi gi ai) df_filtered))))"

text \<open>
  \<open>sort_values\<close> is a stable sort here. pandas' default sort does not promise the order
  of rows with the same question; no property below depends on that order.
\<close>

definition nominal_frequency_analysis :: "'v::linorder analysis_tools \<Rightarrow> 'v list \<Rightarrow> string \<Rightarrow> error + 'v freq_row list" where
  "nominal_frequency_analysis self q_list group_col =
     (case raw_counts self q_list group_col of
        Inl e \<Rightarrow> Inl e
      | Inr counts \<Rightarrow> Inr (sort_key (\<lambda>row. fst (index row)) (with_percentage counts)))"



section \<open>\<open>grouped_summary_stats\<close>\<close>






section \<open>Notions used to state the properties\<close>

text \<open>The table of the scenarios: three answers of two respondents to question \<open>Q1\<close>.\<close>

definition scenario_table :: "string dataframe" where
  "scenario_table =
     \<lparr>columns = [''question'', ''subquestion'', ''respondent_id'', ''answer''],
      rows = [[Some ''Q1'', Some ''S1'', Some ''R1'', Some ''Yes''],
              [Some ''Q1'', Some ''S1'', Some ''R2'', Some ''Yes''],
              [Some ''Q1'', Some ''S2'', Some ''R1'', Some ''No'']]\<rparr>"

text \<open>A table whose only row has no value in the column \<open>subquestion\<close>.\<close>

definition missing_group_table :: "string dataframe" where
  "missing_group_table =
     \<lparr>columns = [''question'', ''subquestion'', ''respondent_id'', ''answer''],
      rows = [[Some ''Q1'', None, Some ''R1'', Some ''Yes'']]\<rparr>"

text \<open>The rational held by a finite \<open>float64\<close> value, for summing a column of finite values.\<close>

definition fin_value :: "fval \<Rightarrow> rat" where
  "fin_value x = (case x of Fin r \<Rightarrow> r | _ \<Rightarrow> 0)"


text \<open>A name with two underscores in a row, and a name that starts or ends with whitespace.\<close>

fun has_double_underscore :: "string \<Rightarrow> bool" where
  "has_double_underscore (a # b # cs) = ((a = CHR ''_'' \<and> b = CHR ''_'') \<or> has_double_underscore (b # cs))"
| "has_double_underscore cs = False"

definition outer_space :: "string \<Rightarrow> bool" where
  "outer_space s = (s \<noteq> [] \<and> (isspace (hd s) \<or> isspace (last s)))"

text \<open>The characters that \<open>sanitize_name\<close> replaces or removes, and the five replacements of its second line.\<close>

definition special :: "char set" where
  "special = {CHR '' '', CHR ''.'', CHR ''-'', CHR ''('', CHR '')''}"

definition replace_specials :: "string \<Rightarrow> string" where
  "replace_specials s = replace '')'' '''' (replace ''('' '''' (replace ''-'' ''_''
                   (replace ''.'' ''_'' (replace '' '' ''_'' s))))"

section \<open>Properties of \<open>sanitize_columns\<close>\<close>

lemma fold_new_cols:
  "fold (\<lambda>col m. m(col \<mapsto> sanitize_name col)) cols m c =
     (if c \<in> set cols then Some (sanitize_name c) else m c)"
  by (induction cols arbitrary: m) auto

lemma new_cols_apply:
  "new_cols cols c = (if c \<in> set cols then Some (sanitize_name c) else None)"
  by (simp add: new_cols_def fold_new_cols)

lemma columns_sanitize_columns:
  "columns (fst (sanitize_columns self)) = map sanitize_name (columns (df self))"
  by (simp add: sanitize_columns_def rename_def Let_def new_cols_apply)

lemma df_sanitize_columns:
  "df (snd (sanitize_columns self)) = fst (sanitize_columns self)"
  by (simp add: sanitize_columns_def Let_def)

lemma sanitize_name_favorite_color:
  "sanitize_name '' Favorite Color (2023).'' = ''favorite_color_2023_''"
  by code_simp

lemma sanitize_name_three_dots: "sanitize_name ''a...b'' = ''a__b''"
  by code_simp

lemma sanitize_name_two_underscores: "sanitize_name ''a__b'' = ''a_b''"
  by code_simp

lemma replace_char_char: "replace [a] [b] s = map (\<lambda>c. if c = a then b else c) s"
  by (induction s) (simp_all add: replace_def)

lemma replace_char_empty: "replace [a] [] s = filter (\<lambda>c. c \<noteq> a) s"
  by (induction s) (simp_all add: replace_def)

lemma collapse_simps:
  "replace ''__'' ''_'' [] = []"
  "replace ''__'' ''_'' [a] = [a]"
  "replace ''__'' ''_'' (a # b # cs) =
     (if a = CHR ''_'' \<and> b = CHR ''_'' then CHR ''_'' # replace ''__'' ''_'' cs
      else a # replace ''__'' ''_'' (b # cs))"
  by (simp_all add: replace_def)

lemma length_collapse: "length (replace ''__'' ''_'' s) \<le> length s"
  by (induction s rule: induct_list012) (simp_all add: collapse_simps)

lemma length_collapse_less:
  "has_double_underscore s \<Longrightarrow> length (replace ''__'' ''_'' s) < length s"
proof (induction s rule: induct_list012)
  case (3 a b cs)
  then show ?case
    using length_collapse [of cs] by (auto simp: collapse_simps)
qed simp_all

lemma collapse_id: "\<not> has_double_underscore s \<Longrightarrow> replace ''__'' ''_'' s = s"
  by (induction s rule: induct_list012) (auto simp: collapse_simps)

lemma set_collapse: "set (replace ''__'' ''_'' s) \<subseteq> set s"
  by (induction s rule: induct_list012) (auto simp: collapse_simps)

lemma of_char_lower_char:
  "(of_char (lower_char c) :: nat) =
     (let n = of_char c in
      if (65 \<le> n \<and> n \<le> 90) \<or> (192 \<le> n \<and> n \<le> 222 \<and> n \<noteq> 215) then n + 32 else n)"
  by (auto simp: lower_char_def Let_def)

lemma lower_char_idem: "lower_char (lower_char c) = lower_char c"
proof -
  have "(of_char (lower_char (lower_char c)) :: nat) = of_char (lower_char c)"
    by (subst of_char_lower_char) (auto simp: of_char_lower_char Let_def)
  then show ?thesis by simp
qed

lemma lower_idem: "lower (lower s) = lower s"
  by (simp add: lower_def lower_char_idem)

lemma lower_char_special: "lower_char c \<in> special \<Longrightarrow> c \<in> special"
proof -
  assume a: "lower_char c \<in> special"
  then have "(of_char (lower_char c) :: nat) \<in> {32, 46, 45, 40, 41}"
    by (auto simp: special_def)
  then have "lower_char c = c"
    by (auto simp: of_char_lower_char Let_def lower_char_def split: if_splits)
  with a show ?thesis by simp
qed

lemma set_strip: "set (strip s) \<subseteq> set s"
  by (auto simp: strip_def dest!: set_dropWhileD)

lemma length_strip: "length (strip s) \<le> length s"
  unfolding strip_def
  by (metis length_dropWhile_le length_rev order_trans)

lemma strip_id: "\<not> outer_space s \<Longrightarrow> strip s = s"
proof (cases "s = []")
  case True then show ?thesis by (simp add: strip_def)
next
  case False
  assume "\<not> outer_space s"
  with False have h: "\<not> isspace (hd s)" and l: "\<not> isspace (last s)"
    by (auto simp: outer_space_def)
  from False h have 1: "dropWhile isspace s = s" by (cases s) auto
  from False l have 2: "dropWhile isspace (rev s) = rev s"
    by (cases "rev s") (auto simp: last_rev hd_rev dest: arg_cong [where f = hd])
  show ?thesis by (simp add: strip_def 1 2)
qed

lemma length_dropWhile_less: "xs \<noteq> [] \<Longrightarrow> P (hd xs) \<Longrightarrow> length (dropWhile P xs) < length xs"
  by (cases xs) (auto simp: le_imp_less_Suc length_dropWhile_le)

lemma length_strip_less:
  assumes "outer_space s"
  shows "length (strip s) < length s"
proof (cases "isspace (hd s)")
  case True
  with assms have "length (dropWhile isspace s) < length s"
    by (simp add: outer_space_def length_dropWhile_less)
  moreover have "length (strip s) \<le> length (dropWhile isspace s)"
    by (simp add: strip_def) (metis length_dropWhile_le length_rev)
  ultimately show ?thesis by simp
next
  case False
  with assms have ne: "s \<noteq> []" and l: "isspace (last s)"
    by (auto simp: outer_space_def)
  from ne False have 1: "dropWhile isspace s = s" by (cases s) auto
  from ne l have "length (dropWhile isspace (rev s)) < length (rev s)"
    by (intro length_dropWhile_less) (simp_all add: hd_rev)
  then show ?thesis by (simp add: strip_def 1)
qed

lemma sanitize_name_unfold:
  "sanitize_name c = lower (replace ''__'' ''_'' (replace_specials (strip c)))"
  by (simp add: sanitize_name_def replace_specials_def)

lemma set_replace_specials: "set (replace_specials s) \<inter> special = {}"
  by (auto simp: replace_specials_def replace_char_char replace_char_empty special_def)

lemma replace_specials_id: "set s \<inter> special = {} \<Longrightarrow> replace_specials s = s"
proof -
  assume a: "set s \<inter> special = {}"
  have "map (\<lambda>c. if c = a then b else c) s = s" if "a \<in> special" for a b
    using a that by (intro map_idI) auto
  moreover have "filter (\<lambda>c. c \<noteq> a) s = s" if "a \<in> special" for a
    using a that by (intro filter_True) auto
  ultimately show ?thesis
    by (simp add: replace_specials_def replace_char_char replace_char_empty special_def)
qed

lemma set_sanitize_name: "set (sanitize_name c) \<inter> special = {}"
proof -
  have "set (replace ''__'' ''_'' (replace_specials (strip c))) \<inter> special = {}"
    using set_collapse [of "replace_specials (strip c)"] set_replace_specials [of "strip c"] by blast
  then show ?thesis
    by (auto simp: sanitize_name_unfold lower_def dest: lower_char_special)
qed

lemma lower_sanitize_name: "lower (sanitize_name c) = sanitize_name c"
  by (simp add: sanitize_name_unfold lower_idem)

lemma length_lower: "length (lower s) = length s"
  by (simp add: lower_def)

lemma sanitize_name_twice_iff:
  "sanitize_name (sanitize_name c) = sanitize_name c \<longleftrightarrow>
     \<not> has_double_underscore (sanitize_name c) \<and> \<not> outer_space (sanitize_name c)"
proof -
  define t where "t = sanitize_name c"
  have sp: "set t \<inter> special = {}" and lo: "lower t = t"
    by (simp_all add: t_def set_sanitize_name lower_sanitize_name)
  have "set (strip t) \<inter> special = {}"
    using sp set_strip [of t] by blast
  then have tw: "sanitize_name t = lower (replace ''__'' ''_'' (strip t))"
    by (simp add: sanitize_name_unfold replace_specials_id)
  have le: "length (sanitize_name t) \<le> length (strip t)"
    by (simp add: tw length_lower length_collapse)
  show ?thesis unfolding t_def [symmetric]
  proof
    assume eq: "sanitize_name t = t"
    have os: "\<not> outer_space t"
    proof
      assume "outer_space t"
      then have "length (strip t) < length t" by (rule length_strip_less)
      with le eq show False by simp
    qed
    then have st: "strip t = t" by (rule strip_id)
    have "\<not> has_double_underscore t"
    proof
      assume "has_double_underscore t"
      then have "length (replace ''__'' ''_'' t) < length t" by (rule length_collapse_less)
      then have "length (sanitize_name t) < length t" by (simp add: tw st length_lower)
      with eq show False by simp
    qed
    with os show "\<not> has_double_underscore t \<and> \<not> outer_space t" by simp
  next
    assume "\<not> has_double_underscore t \<and> \<not> outer_space t"
    then show "sanitize_name t = t"
      by (simp add: tw strip_id collapse_id lo)
  qed
qed

text \<open>
  Claim C3, as amended: \<open>sanitize_columns\<close> renames a column named
  \<open>" Favorite Color (2023)."\<close> to \<open>"favorite_color_2023_"\<close>. The surrounding whitespace
  is trimmed, the spaces and the period become underscores, the parentheses are removed
  and the result is lowercased; the underscore that stands for the final period is kept.
\<close>

theorem sanitize_columns_favorite_color:
  "columns (fst (sanitize_columns
      (self\<lparr>df := \<lparr>columns = before @ '' Favorite Color (2023).'' # after, rows = rs\<rparr>\<rparr>))) =
   map sanitize_name before @ ''favorite_color_2023_'' # map sanitize_name after"
  by (simp add: columns_sanitize_columns sanitize_name_favorite_color)

text \<open>The name stated in claim C3, without the final underscore, is not the one the column gets.\<close>

theorem sanitize_columns_favorite_color_counterexample:
  "columns (fst (sanitize_columns
      (init_default \<lparr>columns = ['' Favorite Color (2023).''], rows = []\<rparr> 0 :: string analysis_tools)))
   \<noteq> [''favorite_color_2023'']"
  by (simp add: columns_sanitize_columns sanitize_name_favorite_color init_default_def init_def)

text \<open>
  Claim C9, as amended: the collapse of double underscores is a single pass from left to
  right over non-overlapping pairs, so a run of three is not collapsed to one underscore:
  \<open>sanitize_columns\<close> renames a column named \<open>"a...b"\<close> to \<open>"a__b"\<close>.
\<close>

theorem sanitize_columns_three_dots:
  "columns (fst (sanitize_columns
      (self\<lparr>df := \<lparr>columns = before @ ''a...b'' # after, rows = rs\<rparr>\<rparr>))) =
   map sanitize_name before @ ''a__b'' # map sanitize_name after"
  by (simp add: columns_sanitize_columns sanitize_name_three_dots)

text \<open>The name stated in claim C9, with three underscores, is not the one the column gets.\<close>

theorem sanitize_columns_three_dots_counterexample:
  "columns (fst (sanitize_columns
      (init_default \<lparr>columns = [''a...b''], rows = []\<rparr> 0 :: string analysis_tools)))
   \<noteq> [''a___b'']"
  by (simp add: columns_sanitize_columns sanitize_name_three_dots init_default_def init_def)

text \<open>
  Claim C5, as amended: applying \<open>sanitize_columns\<close> twice in succession yields the same
  column names as applying it once exactly when no name, after the first application,
  contains a double underscore or starts or ends with whitespace.
\<close>

theorem sanitize_columns_twice:
  "columns (fst (sanitize_columns (snd (sanitize_columns self)))) = columns (fst (sanitize_columns self))
   \<longleftrightarrow> (\<forall>c \<in> set (columns (df self)).
          \<not> has_double_underscore (sanitize_name c) \<and> \<not> outer_space (sanitize_name c))"
  by (simp add: columns_sanitize_columns df_sanitize_columns sanitize_name_twice_iff)

theorem sanitize_columns_twice_witness:
  "\<not> has_double_underscore (sanitize_name '' Favorite Color (2023).'') \<and>
   \<not> outer_space (sanitize_name '' Favorite Color (2023).'') \<and>
   \<not> has_double_underscore (sanitize_name ''answer'') \<and>
   \<not> outer_space (sanitize_name ''answer'') \<and>
   columns (fst (sanitize_columns (snd (sanitize_columns
      (init_default \<lparr>columns = ['' Favorite Color (2023).'', ''answer''], rows = []\<rparr> 0 :: string analysis_tools))))) =
   columns (fst (sanitize_columns
      (init_default \<lparr>columns = ['' Favorite Color (2023).'', ''answer''], rows = []\<rparr> 0 :: string analysis_tools)))"
proof -
  have h: "\<not> has_double_underscore (sanitize_name '' Favorite Color (2023).'') \<and>
      \<not> outer_space (sanitize_name '' Favorite Color (2023).'') \<and>
      \<not> has_double_underscore (sanitize_name ''answer'') \<and>
      \<not> outer_space (sanitize_name ''answer'')"
    by code_simp
  then have "\<forall>c \<in> set (columns (df (init_default \<lparr>columns = ['' Favorite Color (2023).'', ''answer''], rows = []\<rparr> 0 :: string analysis_tools))).
      \<not> has_double_underscore (sanitize_name c) \<and> \<not> outer_space (sanitize_name c)"
    by (simp add: init_default_def init_def)
  then show ?thesis
    using h sanitize_columns_twice
      [of "init_default \<lparr>columns = ['' Favorite Color (2023).'', ''answer''], rows = []\<rparr> 0 :: string analysis_tools"]
    by blast
qed

text \<open>For a column named \<open>"a...b"\<close> the second application changes the name once more, from \<open>"a__b"\<close> to \<open>"a_b"\<close>.\<close>

theorem sanitize_columns_twice_counterexample:
  "set (columns (fst (sanitize_columns (snd (sanitize_columns
      (init_default \<lparr>columns = [''a...b''], rows = []\<rparr> 0 :: string analysis_tools))))))
   \<noteq> set (columns (fst (sanitize_columns
      (init_default \<lparr>columns = [''a...b''], rows = []\<rparr> 0 :: string analysis_tools))))"
  by (simp add: columns_sanitize_columns df_sanitize_columns sanitize_name_three_dots
      sanitize_name_two_underscores init_default_def init_def)

section \<open>Properties of \<open>multi_response_analysis\<close>\<close>

lemma set_map_filter_key: "set (List.map_filter key rs) = {k. \<exists>r \<in> set rs. key r = Some k}"
  by (auto simp: List.map_filter_def intro: rev_image_eqI)

lemma map_fst_groupby: "map fst (groupby key rs) = sort (remdups (List.map_filter key rs))"
  by (simp add: groupby_def comp_def)

lemma groupby_member:
  "(k, g) \<in> set (groupby key rs) \<longleftrightarrow>
     (\<exists>r \<in> set rs. key r = Some k) \<and> g = filter (\<lambda>r. key r = Some k) rs"
  by (auto simp: groupby_def set_map_filter_key)

lemma groupby_nonempty: "(k, g) \<in> set (groupby key rs) \<Longrightarrow> g \<noteq> []"
  by (auto simp: groupby_member filter_empty_conv)

lemma groupby_subset: "(k, g) \<in> set (groupby key rs) \<Longrightarrow> set g \<subseteq> set rs"
  by (auto simp: groupby_member)

lemma nunique_card: "nunique cs = int (card {v. Some v \<in> set cs})"
proof -
  have "set (List.map_filter (\<lambda>c. c) cs) = {v. Some v \<in> set cs}"
    by (auto simp: set_map_filter_key)
  then show ?thesis
    by (simp add: nunique_def length_remdups_card_conv)
qed

lemma nunique_mono: "set cs \<subseteq> set ds \<Longrightarrow> nunique cs \<le> nunique ds"
proof -
  assume a: "set cs \<subseteq> set ds"
  have "finite {v. Some v \<in> set ds}"
    by (rule finite_subset [of _ "the ` set ds"]) (auto intro: rev_image_eqI)
  moreover have "{v. Some v \<in> set cs} \<subseteq> {v. Some v \<in> set ds}" using a by auto
  ultimately show ?thesis by (simp add: nunique_card card_mono)
qed

lemma multi_response_analysis_rowE:
  assumes "multi_response_analysis self q_list group_cols = Inr res" and "row \<in> set res"
  obtains df_mr kis ri where
    "filter_questions self q_list = Inr df_mr"
    "col_indices (df self) (group_cols @ [question_col self, subquest_col self]) = Inr kis"
    "col_index (df self) (respondent_col self) = Inr ri"
    "\<exists>r \<in> set df_mr. list_key kis r = Some (mr_index row)"
    "Response_Count row =
       nunique (map (\<lambda>r. cell r ri) (filter (\<lambda>r. list_key kis r = Some (mr_index row)) df_mr))"
    "mr_Percentage row = round2 (times100 (fdiv (Response_Count row) (total_respondents self)))"
  using assms
  by (auto simp: multi_response_analysis_def Let_def groupby_member split: sum.splits)

lemma multi_response_analysis_nonempty:
  assumes "filter_questions self q_list = Inr df_mr"
    and "col_indices (df self) (group_cols @ [question_col self, subquest_col self]) = Inr kis"
    and "col_index (df self) (respondent_col self) = Inr ri"
    and "r \<in> set df_mr" and "list_key kis r = Some k"
  shows "\<exists>res row. multi_response_analysis self q_list group_cols = Inr res \<and> row \<in> set res \<and> mr_index row = k"
proof -
  have "(k, filter (\<lambda>r. list_key kis r = Some k) df_mr) \<in> set (groupby (list_key kis) df_mr)"
    using assms(4,5) by (auto simp: groupby_member)
  then show ?thesis using assms(1-3)
    by (force simp: multi_response_analysis_def Let_def)
qed



lemma scenario_multi_response:
  "multi_response_analysis (init_default scenario_table 4) [''Q1''] [] =
     Inr [\<lparr>mr_index = [''Q1'', ''S1''], Response_Count = 2, mr_Percentage = Fin 50\<rparr>,
          \<lparr>mr_index = [''Q1'', ''S2''], Response_Count = 1, mr_Percentage = Fin 25\<rparr>]"
  by code_simp



lemma scenario_one_respondent:
  "multi_response_analysis (init_default scenario_table 1) [''Q1''] [] =
     Inr [\<lparr>mr_index = [''Q1'', ''S1''], Response_Count = 2, mr_Percentage = Fin 200\<rparr>,
          \<lparr>mr_index = [''Q1'', ''S2''], Response_Count = 1, mr_Percentage = Fin 100\<rparr>]"
  by code_simp

lemma scenario_no_respondents:
  "multi_response_analysis (init_default scenario_table 0) [''Q1''] [] =
     Inr [\<lparr>mr_index = [''Q1'', ''S1''], Response_Count = 2, mr_Percentage = PosInf\<rparr>,
          \<lparr>mr_index = [''Q1'', ''S2''], Response_Count = 1, mr_Percentage = PosInf\<rparr>]"
  by code_simp

lemma scenario_filter_questions:
  "filter_questions (init_default scenario_table n) [''Q1''] = Inr (rows scenario_table)"
  by (simp add: filter_questions_def init_default_def init_def scenario_table_def col_index_def
      isin_def cell_def upt_rec [of 0] upt_rec [of 1] upt_rec [of 2] upt_rec [of 3])

lemma scenario_respondent_col:
  "col_index (df (init_default scenario_table n)) (respondent_col (init_default scenario_table n)) = Inr 2"
  by (simp add: init_default_def init_def scenario_table_def col_index_def
      upt_rec [of 0] upt_rec [of 1] upt_rec [of 2] upt_rec [of 3])

lemma scenario_nunique:
  "nunique (map (\<lambda>r. cell r 2) (rows scenario_table)) = 2"
  by (simp add: nunique_def scenario_table_def cell_def List.map_filter_def)

text \<open>
  Claim C7, as amended: when \<open>multi_response_analysis\<close> succeeds, each
  \<open>Response Count\<close> of its result is at most the number of distinct respondent
  identifiers present in the filtered table as a whole. It is at most
  \<open>total_respondents\<close> when \<open>total_respondents\<close> is at least that number, which the
  class does not check.
\<close>

theorem response_count_bounded:
  assumes "multi_response_analysis self q_list group_cols = Inr res" and "row \<in> set res"
  shows "\<exists>df_mr ri.
     filter_questions self q_list = Inr df_mr \<and>
     col_index (df self) (respondent_col self) = Inr ri \<and>
     Response_Count row \<le> nunique (map (\<lambda>r. cell r ri) df_mr) \<and>
     (nunique (map (\<lambda>r. cell r ri) df_mr) \<le> total_respondents self \<longrightarrow>
        Response_Count row \<le> total_respondents self)"
proof -
  from assms obtain df_mr kis ri where
    1: "filter_questions self q_list = Inr df_mr" "col_index (df self) (respondent_col self) = Inr ri"
    and 2: "Response_Count row =
       nunique (map (\<lambda>r. cell r ri) (filter (\<lambda>r. list_key kis r = Some (mr_index row)) df_mr))"
    by (blast elim: multi_response_analysis_rowE)
  have "Response_Count row \<le> nunique (map (\<lambda>r. cell r ri) df_mr)"
    unfolding 2 by (rule nunique_mono) auto
  with 1 show ?thesis by auto
qed

theorem response_count_bounded_witness:
  "\<exists>df_mr ri.
     filter_questions (init_default scenario_table 4) [''Q1''] = Inr df_mr \<and>
     col_index (df (init_default scenario_table 4)) (respondent_col (init_default scenario_table 4)) = Inr ri \<and>
     (2 :: int) \<le> nunique (map (\<lambda>r. cell r ri) df_mr) \<and>
     nunique (map (\<lambda>r. cell r ri) df_mr) \<le> 4 \<and> (2 :: int) \<le> 4"
proof -
  let ?row = "\<lparr>mr_index = [''Q1'', ''S1''], Response_Count = 2, mr_Percentage = Fin 50\<rparr>"
  have "?row \<in> set [?row, \<lparr>mr_index = [''Q1'', ''S2''], Response_Count = 1, mr_Percentage = Fin 25\<rparr>]"
    by simp
  from response_count_bounded [OF scenario_multi_response this]
  show ?thesis
    by (simp add: scenario_filter_questions scenario_respondent_col scenario_nunique)
qed

text \<open>
  With \<open>total_respondents = 1\<close> on the scenario table the count 2 of \<open>(Q1, S1)\<close>
  exceeds \<open>total_respondents\<close>.
\<close>

theorem response_count_bounded_counterexample:
  "multi_response_analysis (init_default scenario_table 1) [''Q1''] [] =
     Inr [\<lparr>mr_index = [''Q1'', ''S1''], Response_Count = 2, mr_Percentage = Fin 200\<rparr>,
          \<lparr>mr_index = [''Q1'', ''S2''], Response_Count = 1, mr_Percentage = Fin 100\<rparr>] \<and>
   \<not> Response_Count \<lparr>mr_index = [''Q1'', ''S1''], Response_Count = 2, mr_Percentage = Fin 200\<rparr>
       \<le> total_respondents (init_default scenario_table 1)"
  by (simp add: scenario_one_respondent) (simp add: init_default_def init_def)

lemma round2_times100_fdiv:
  "round2 (times100 (fdiv a b)) =
     (if b = 0 then (if a = 0 then NaN else if 0 < a then PosInf else NegInf)
      else Fin (of_int (rint (of_int a / of_int b * 100 * 100)) / 100))"
  by (simp add: round2_def times100_def fdiv_def)

lemma rint_bounds: "of_int (rint r) \<le> r + 1 / 2" "r - 1 / 2 \<le> of_int (rint r)"
  unfolding rint_def Let_def by (auto; linarith)+

lemma rint_nonneg: "0 \<le> r \<Longrightarrow> 0 \<le> rint r"
  unfolding rint_def Let_def by (auto simp: zero_le_floor)

lemma rint_nonpos: "r \<le> 0 \<Longrightarrow> rint r \<le> 0"
  using rint_bounds(1) [of r] by linarith

lemma nunique_nonneg: "0 \<le> nunique cs"
  by (simp add: nunique_def)

text \<open>
  Claim C10: \<open>multi_response_analysis\<close> divides by \<open>total_respondents\<close> without a
  guard. With \<open>total_respondents = 0\<close> every row of the result holds an infinity or
  \<open>NaN\<close> as percentage; with \<open>total_respondents > 0\<close> every percentage is finite and not
  negative; with a negative \<open>total_respondents\<close> it is finite and not positive.
\<close>

theorem percentage_needs_positive_total:
  assumes "multi_response_analysis self q_list group_cols = Inr res" and "row \<in> set res"
  shows "(total_respondents self = 0 \<longrightarrow>
            mr_Percentage row = (if Response_Count row = 0 then NaN else PosInf)) \<and>
         (0 < total_respondents self \<longrightarrow> (\<exists>p. mr_Percentage row = Fin p \<and> 0 \<le> p)) \<and>
         (total_respondents self < 0 \<longrightarrow> (\<exists>p. mr_Percentage row = Fin p \<and> p \<le> 0))"
proof -
  from assms obtain cs :: "'a option list" where
    1: "Response_Count row = nunique cs"
    and 2: "mr_Percentage row = round2 (times100 (fdiv (Response_Count row) (total_respondents self)))"
    by (rule multi_response_analysis_rowE) blast
  have n: "0 \<le> Response_Count row" by (simp add: 1 nunique_nonneg)
  define x :: rat where "x = of_int (Response_Count row) / of_int (total_respondents self) * 100 * 100"
  have pct: "mr_Percentage row = Fin (of_int (rint x) / 100)" if "total_respondents self \<noteq> 0"
    using that unfolding 2 x_def by (simp only: round2_times100_fdiv if_False)
  show ?thesis
  proof (intro conjI impI)
    assume "total_respondents self = 0"
    with n show "mr_Percentage row = (if Response_Count row = 0 then NaN else PosInf)"
      by (simp add: 2 round2_times100_fdiv)
  next
    assume t: "0 < total_respondents self"
    have "0 \<le> x" using n t by (simp add: x_def)
    then have "0 \<le> rint x" by (rule rint_nonneg)
    then have "(0::rat) \<le> of_int (rint x) / 100" by simp
    moreover from t have "mr_Percentage row = Fin (of_int (rint x) / 100)" by (intro pct) simp
    ultimately show "\<exists>p. mr_Percentage row = Fin p \<and> 0 \<le> p" by blast
  next
    assume t: "total_respondents self < 0"
    have "x \<le> 0" using n t by (simp add: x_def divide_nonneg_neg mult_le_0_iff)
    then have "rint x \<le> 0" by (rule rint_nonpos)
    then have "of_int (rint x) / 100 \<le> (0::rat)" by simp
    moreover from t have "mr_Percentage row = Fin (of_int (rint x) / 100)" by (intro pct) simp
    ultimately show "\<exists>p. mr_Percentage row = Fin p \<and> p \<le> 0" by blast
  qed
qed

theorem percentage_needs_positive_total_witness:
  "multi_response_analysis (init_default scenario_table 0) [''Q1''] [] =
     Inr [\<lparr>mr_index = [''Q1'', ''S1''], Response_Count = 2, mr_Percentage = PosInf\<rparr>,
          \<lparr>mr_index = [''Q1'', ''S2''], Response_Count = 1, mr_Percentage = PosInf\<rparr>] \<and>
   total_respondents (init_default scenario_table 0) = 0 \<and>
   mr_Percentage \<lparr>mr_index = [''Q1'', ''S1''], Response_Count = 2, mr_Percentage = PosInf\<rparr> = PosInf"
proof -
  let ?row = "\<lparr>mr_index = [''Q1'', ''S1''], Response_Count = 2, mr_Percentage = PosInf\<rparr>"
  have "?row \<in> set [?row, \<lparr>mr_index = [''Q1'', ''S2''], Response_Count = 1, mr_Percentage = PosInf\<rparr>]"
    by simp
  from percentage_needs_positive_total [OF scenario_no_respondents this] scenario_no_respondents
  show ?thesis
    by (simp add: init_default_def init_def)
qed

section \<open>Properties of \<open>grouped_summary_stats\<close>\<close>




section \<open>Properties of \<open>nominal_frequency_analysis\<close> and \<open>nominal_frequency_pivot\<close>\<close>

lemma sorted_keys_groupby: "sorted (map fst (groupby key rs))"
  by (simp add: map_fst_groupby)

lemma sorted_map_fst:
  fixes ks :: "('a::linorder \<times> 'b::linorder) list"
  shows "sorted ks \<Longrightarrow> sorted (map fst ks)"
  by (induction ks) (auto simp: less_eq_prod_def)

lemma map_index_with_percentage: "map index (with_percentage counts) = map fst counts"
  by (simp add: with_percentage_def comp_def)

lemma sort_with_percentage:
  assumes "sorted (map fst counts)"
  shows "sort_key index (with_percentage counts) = with_percentage counts"
    and "sort_key (\<lambda>row. fst (index row)) (with_percentage counts) = with_percentage counts"
proof -
  show "sort_key index (with_percentage counts) = with_percentage counts"
    using assms by (intro sort_key_id_if_sorted) (simp add: map_index_with_percentage)
  have "map (\<lambda>row. fst (index row)) (with_percentage counts) = map fst (map fst counts)"
    by (simp add: with_percentage_def comp_def)
  moreover have "sorted (map fst (map fst counts))"
    using assms by (rule sorted_map_fst)
  ultimately show "sort_key (\<lambda>row. fst (index row)) (with_percentage counts) = with_percentage counts"
    by (intro sort_key_id_if_sorted) (simp only:)
qed

lemma sorted_raw_counts:
  "raw_counts self q_list group_col = Inr counts \<Longrightarrow> sorted (map fst counts)"
  by (auto simp: raw_counts_def comp_def case_prod_unfold map_fst_groupby [unfolded comp_def] groupby_def
      split: sum.splits)


lemma nominal_frequency_analysis_eq:
  "nominal_frequency_analysis self q_list group_col =
     (case raw_counts self q_list group_col of Inl e \<Rightarrow> Inl e | Inr counts \<Rightarrow> Inr (with_percentage counts))"
  by (auto simp: nominal_frequency_analysis_def sort_with_percentage sorted_raw_counts split: sum.splits)






lemma scenario_nominal_frequency_analysis:
  "nominal_frequency_analysis (init_default scenario_table n) [''Q1''] ''subquestion'' =
     Inr [\<lparr>index = (''Q1'', ''S1'', ''Yes''), Count = 2, Percentage = Fin (6667 / 100)\<rparr>,
          \<lparr>index = (''Q1'', ''S2'', ''No''), Count = 1, Percentage = Fin (3333 / 100)\<rparr>]"
  by (simp add: nominal_frequency_analysis_eq) code_simp





lemma scenario_key_columns:
  "key_columns (init_default scenario_table n) ''subquestion'' = Inr (0, 1, 3)"
  by code_simp






lemma rint_error: "\<bar>of_int (rint x) / 100 - x / 100\<bar> \<le> (1 / 200 :: rat)"
proof -
  have "\<bar>of_int (rint x) - x\<bar> \<le> 1 / 2"
    using rint_bounds [of x] by linarith
  then have "\<bar>of_int (rint x) - x\<bar> / 100 \<le> (1 / 2) / 100"
    by (rule divide_right_mono) simp
  moreover have "\<bar>of_int (rint x) / 100 - x / 100\<bar> = \<bar>of_int (rint x) - x\<bar> / 100"
    by (simp only: diff_divide_distrib [symmetric] abs_divide)
  ultimately show ?thesis by simp
qed

lemma rounding_sum:
  fixes T :: rat
  shows "\<bar>(\<Sum>c\<leftarrow>cs. of_int (rint (of_int c / T * 100 * 100)) / 100) - (\<Sum>c\<leftarrow>cs. of_int c) / T * 100\<bar>
           \<le> of_nat (length cs) / 200"
proof (induction cs)
  case Nil
  show ?case by simp
next
  case (Cons c cs)
  define x :: rat where "x = of_int c / T * 100 * 100"
  define S :: rat where "S = (\<Sum>c\<leftarrow>cs. of_int (rint (of_int c / T * 100 * 100)) / 100)"
  define R :: rat where "R = (\<Sum>c\<leftarrow>cs. of_int c) / T * 100"
  have 1: "\<bar>of_int (rint x) / 100 - x / 100\<bar> \<le> 1 / 200" by (rule rint_error)
  have 2: "\<bar>S - R\<bar> \<le> of_nat (length cs) / 200" using Cons.IH by (simp add: S_def R_def)
  have 3: "(\<Sum>c\<leftarrow>c # cs. of_int c) / T * 100 = x / 100 + R"
    by (simp add: x_def R_def add_divide_distrib distrib_right)
  have "\<bar>(of_int (rint x) / 100 + S) - (x / 100 + R)\<bar> \<le> 1 / 200 + of_nat (length cs) / 200"
    using 1 2 by linarith
  then show ?case
    unfolding 3 by (simp add: x_def S_def add_divide_distrib)
qed

lemma size_agg_positive: "g \<noteq> [] \<Longrightarrow> 1 \<le> size_agg g"
  by (cases g) (simp_all add: size_agg_def)

lemma sum_list_ge_length:
  fixes cs :: "int list"
  shows "\<forall>c \<in> set cs. 1 \<le> c \<Longrightarrow> int (length cs) \<le> sum_list cs"
  by (induction cs) auto

lemma of_int_sum_list_rat: "(\<Sum>c\<leftarrow>cs. rat_of_int c) = of_int (sum_list cs)"
  by (induction cs) simp_all

text \<open>
  Claim C1, as amended: in the table returned by \<open>nominal_frequency_analysis\<close>, for
  every question value that has at least one filtered row in which the group column and
  the answer column both hold a value, there are rows under that question, their
  percentages are finite, and they sum to 100 up to 0.01 times the number of these rows.
\<close>

theorem nominal_percentages_sum_to_100:
  assumes "nominal_frequency_analysis self q_list group_col = Inr res"
    and "filter_questions self q_list = Inr df_filtered"
    and "key_columns self group_col = Inr (qi, gi, ai)"
    and "r \<in> set df_filtered"
    and "triple_key qi gi ai r = Some (q, g, a)"
  shows "filter (\<lambda>row. fst (index row) = q) res \<noteq> [] \<and>
         list_all (\<lambda>row. \<exists>p. Percentage row = Fin p) (filter (\<lambda>row. fst (index row) = q) res) \<and>
         \<bar>(\<Sum>row\<leftarrow>filter (\<lambda>row. fst (index row) = q) res. fin_value (Percentage row)) - 100\<bar>
           \<le> of_nat (length (filter (\<lambda>row. fst (index row) = q) res)) / 100"
proof -
  define counts where
    "counts = map (\<lambda>(k, g). (k, size_agg g)) (groupby (triple_key qi gi ai) df_filtered)"
  define cq where "cq = filter (\<lambda>cr. fst (fst cr) = q) counts"
  define T where "T = sum_list (map snd cq)"
  define under where "under = filter (\<lambda>row. fst (index row) = q) (with_percentage counts)"
  have "nominal_frequency_analysis self q_list group_col = Inr (with_percentage counts)"
    using assms(2,3) by (simp add: nominal_frequency_analysis_eq raw_counts_def counts_def)
  with assms(1) have res: "res = with_percentage counts" by simp
  have pos: "1 \<le> snd cr" if "cr \<in> set counts" for cr
    using that by (auto simp: counts_def intro!: size_agg_positive dest: groupby_nonempty)
  have "((q, g, a), size_agg (filter (\<lambda>r. triple_key qi gi ai r = Some (q, g, a)) df_filtered)) \<in> set counts"
    using assms(4,5) unfolding counts_def by (force simp: groupby_member)
  then have ne: "cq \<noteq> []"
    unfolding cq_def filter_empty_conv by force
  have "int (length (map snd cq)) \<le> sum_list (map snd cq)"
    by (rule sum_list_ge_length) (auto simp: cq_def pos)
  with ne have Tpos: "0 < T" by (cases cq) (simp_all add: T_def)
  have qt: "question_total counts cr = T" if "cr \<in> set cq" for cr
    using that by (simp add: question_total_def T_def cq_def)
  have under_eq: "under = map (\<lambda>cr. \<lparr>index = fst cr, Count = snd cr,
      Percentage = Fin (of_int (rint (of_int (snd cr) / of_int T * 100 * 100)) / 100)\<rparr>) cq"
  proof -
    have "under = map (\<lambda>cr. \<lparr>index = fst cr, Count = snd cr,
        Percentage = round2 (times100 (fdiv (snd cr) (question_total counts cr)))\<rparr>) cq"
      by (simp add: under_def with_percentage_def filter_map comp_def cq_def)
    also have "\<dots> = map (\<lambda>cr. \<lparr>index = fst cr, Count = snd cr,
        Percentage = Fin (of_int (rint (of_int (snd cr) / of_int T * 100 * 100)) / 100)\<rparr>) cq"
      using Tpos by (intro map_cong refl) (simp add: qt round2_times100_fdiv)
    finally show ?thesis .
  qed
  have 1: "under \<noteq> []" using ne by (simp add: under_eq)
  have 2: "list_all (\<lambda>row. \<exists>p. Percentage row = Fin p) under"
    unfolding list_all_iff
  proof
    fix row
    assume "row \<in> set under"
    then obtain cr where "row = \<lparr>index = fst cr, Count = snd cr,
        Percentage = Fin (of_int (rint (of_int (snd cr) / of_int T * 100 * 100)) / 100)\<rparr>"
      unfolding under_eq by auto
    then have "Percentage row = Fin (of_int (rint (of_int (snd cr) / of_int T * 100 * 100)) / 100)"
      by simp
    then show "\<exists>p. Percentage row = Fin p" by (rule exI)
  qed
  have "(\<Sum>row\<leftarrow>under. fin_value (Percentage row)) =
      (\<Sum>c\<leftarrow>map snd cq. of_int (rint (of_int c / of_int T * 100 * 100)) / 100)"
    by (simp add: under_eq comp_def fin_value_def)
  moreover have "(\<Sum>c\<leftarrow>map snd cq. rat_of_int c) / of_int T * 100 = 100"
  proof -
    have "(\<Sum>c\<leftarrow>map snd cq. rat_of_int c) = of_int T"
      by (simp only: T_def of_int_sum_list_rat)
    with Tpos show ?thesis by simp
  qed
  ultimately have "\<bar>(\<Sum>row\<leftarrow>under. fin_value (Percentage row)) - 100\<bar> \<le> of_nat (length (map snd cq)) / 200"
    using rounding_sum [where cs = "map snd cq" and T = "of_int T"] by simp
  also have "\<dots> \<le> of_nat (length under) / 100"
    by (simp add: under_eq)
  finally have 3: "\<bar>(\<Sum>row\<leftarrow>under. fin_value (Percentage row)) - 100\<bar> \<le> of_nat (length under) / 100" .
  from 1 2 3 show ?thesis unfolding under_def res by blast
qed


lemma missing_group_filter_questions:
  "filter_questions (init_default missing_group_table 4) [''Q1''] =
     Inr [[Some ''Q1'', None, Some ''R1'', Some ''Yes'']]"
  by code_simp

lemma missing_group_nominal_frequency_analysis:
  "nominal_frequency_analysis (init_default missing_group_table 4) [''Q1''] ''subquestion'' = Inr []"
  by code_simp

theorem nominal_percentages_sum_to_100_witness:
  "nominal_frequency_analysis (init_default scenario_table 4) [''Q1''] ''subquestion'' =
     Inr [\<lparr>index = (''Q1'', ''S1'', ''Yes''), Count = 2, Percentage = Fin (6667 / 100)\<rparr>,
          \<lparr>index = (''Q1'', ''S2'', ''No''), Count = 1, Percentage = Fin (3333 / 100)\<rparr>] \<and>
   filter_questions (init_default scenario_table 4) [''Q1''] = Inr (rows scenario_table) \<and>
   key_columns (init_default scenario_table 4) ''subquestion'' = Inr (0, 1, 3) \<and>
   [Some ''Q1'', Some ''S1'', Some ''R1'', Some ''Yes''] \<in> set (rows scenario_table) \<and>
   triple_key 0 1 3 [Some ''Q1'', Some ''S1'', Some ''R1'', Some ''Yes''] = Some (''Q1'', ''S1'', ''Yes'') \<and>
   \<bar>(\<Sum>row\<leftarrow>filter (\<lambda>row. fst (index row) = ''Q1'')
          [\<lparr>index = (''Q1'', ''S1'', ''Yes''), Count = 2, Percentage = Fin (6667 / 100)\<rparr>,
           \<lparr>index = (''Q1'', ''S2'', ''No''), Count = 1, Percentage = Fin (3333 / 100)\<rparr>].
        fin_value (Percentage row)) - 100\<bar>
     \<le> of_nat (length (filter (\<lambda>row. fst (index row) = ''Q1'')
          [\<lparr>index = (''Q1'', ''S1'', ''Yes''), Count = 2, Percentage = Fin (6667 / 100)\<rparr>,
           \<lparr>index = (''Q1'', ''S2'', ''No''), Count = 1, Percentage = Fin (3333 / 100)\<rparr>])) / 100"
proof -
  have 0: "nominal_frequency_analysis (init_default scenario_table 4) [''Q1''] ''subquestion'' =
     Inr [\<lparr>index = (''Q1'', ''S1'', ''Yes''), Count = 2, Percentage = Fin (6667 / 100)\<rparr>,
          \<lparr>index = (''Q1'', ''S2'', ''No''), Count = 1, Percentage = Fin (3333 / 100)\<rparr>]"
    by (rule scenario_nominal_frequency_analysis)
  have 1: "filter_questions (init_default scenario_table 4) [''Q1''] = Inr (rows scenario_table)"
    by (rule scenario_filter_questions)
  have 2: "key_columns (init_default scenario_table 4) ''subquestion'' = Inr (0, 1, 3)"
    by (rule scenario_key_columns)
  have 3: "[Some ''Q1'', Some ''S1'', Some ''R1'', Some ''Yes''] \<in> set (rows scenario_table)"
    by (simp add: scenario_table_def)
  have 4: "triple_key 0 1 3 [Some ''Q1'', Some ''S1'', Some ''R1'', Some ''Yes''] = Some (''Q1'', ''S1'', ''Yes'')"
    by (simp add: triple_key_def cell_def)
  from nominal_percentages_sum_to_100 [OF 0 1 2 3 4] 0 1 2 3 4 show ?thesis
    by blast
qed

text \<open>
  The question \<open>Q1\<close> of this table has a filtered row, whose group is missing. The
  grouping leaves the row out, the result is empty, and the percentages under \<open>Q1\<close> sum
  to 0 with no group to allow for a rounding error.
\<close>

theorem nominal_percentages_sum_to_100_counterexample:
  "filter_questions (init_default missing_group_table 4) [''Q1''] =
     Inr [[Some ''Q1'', None, Some ''R1'', Some ''Yes'']] \<and>
   nominal_frequency_analysis (init_default missing_group_table 4) [''Q1''] ''subquestion'' = Inr [] \<and>
   \<not> \<bar>(\<Sum>row\<leftarrow>filter (\<lambda>row. fst (index row) = ''Q1'') ([] :: string freq_row list).
          fin_value (Percentage row)) - 100\<bar>
       \<le> of_nat (length (filter (\<lambda>row. fst (index row) = ''Q1'') ([] :: string freq_row list))) / 100"
  by (simp add: missing_group_filter_questions missing_group_nominal_frequency_analysis)

end
